theory Spec2Isabelle
  imports
    Complex_Main
    "HOL-Library.Char_ord"
    "HOL-Library.List_Lexorder"
    "HOL-Library.Product_Lexorder"
    "HOL-Library.Multiset"
begin

section \<open>Data model of Dashboard.py\<close>

text \<open>
  The dashboard keeps one pandas DataFrame with six columns. A DataFrame is modelled as
  the list of its rows, in index order; a row is a record whose fields carry the column
  names of the source (a blank in a column name is written as an underscore).

  Numbers: a float64 cell is modelled by the real number it stands for, so rounding
  errors of the floating-point unit are not part of the model. The one non-number that
  the pandas reductions of this program can produce, NaN, is kept as a value of its own
  in the type \<open>float64\<close> of reduction results. The int64 column is an \<open>int\<close>.
  Strings are ordered as Python orders them, character by character.
\<close>

record row =
  Jenis_Kelamin :: string
  Tingkat_Pendidikan :: string
  Durasi_Penggunaan_Harian :: real
  Platform_Terbanyak_Digunakan :: string
  Durasi_Tidur :: real
  Skor_Kesehatan_Mental :: int

type_synonym dataframe = "row list"

datatype float64 = NaN | Fin real

text \<open>
  A Python object as far as the metric values of \<open>main\<close> are concerned: the object
  \<open>None\<close>, or a float (which may be NaN).
\<close>

datatype pyobj = PyNone | PyFloat float64

section \<open>numpy element-wise operations\<close>

text \<open>
  \<open>numpy.rint\<close>: round to the nearest integer, a tie going to the even neighbour.
\<close>

definition rint :: "real \<Rightarrow> int" where
  "rint x =
     (let f = \<lfloor>x\<rfloor>; d = x - of_int f in
      if d < 1 / 2 then f
      else if 1 / 2 < d then f + 1
      else if even f then f else f + 1)"

text \<open>
  \<open>numpy.round(x, decimals)\<close> for \<open>decimals \<ge> 0\<close>: scale by \<open>10 ^ decimals\<close>,
  \<open>rint\<close>, scale back. \<open>Series.round\<close> and \<open>DataFrame.round\<close> apply it to
  every float cell and leave integer columns as they are.
\<close>

definition np_round :: "nat \<Rightarrow> real \<Rightarrow> real" where
  "np_round decimals x = of_int (rint (x * 10 ^ decimals)) / 10 ^ decimals"

text \<open>\<open>Series.clip(lower, upper)\<close>: first raised to \<open>lower\<close>, then cut at \<open>upper\<close>.\<close>

definition clip :: "real \<Rightarrow> real \<Rightarrow> real \<Rightarrow> real" where
  "clip lower upper x = min (max x lower) upper"

text \<open>
  \<open>astype(int)\<close> on a float: the C conversion, which drops the fractional part
  (rounds towards zero).
\<close>

definition astype_int :: "real \<Rightarrow> int" where
  "astype_int x = (if 0 \<le> x then \<lfloor>x\<rfloor> else \<lceil>x\<rceil>)"

section \<open>load\_and\_clean\_data\<close>

text \<open>
  The generator draws six arrays of \<open>n_samples = 300\<close> random values. The random
  source is made explicit: a record holding, for each of the six \<open>np.random\<close> calls,
  the value drawn at every position. The function below is then the deterministic rest
  of \<open>load_and_clean_data\<close>; none of its steps can raise on real-valued draws, so the
  \<open>except\<close> branch of the source is never taken and the table itself is returned.
\<close>

record draws =
  choice_Jenis_Kelamin :: "nat \<Rightarrow> string"
  choice_Tingkat_Pendidikan :: "nat \<Rightarrow> string"
  uniform_Durasi :: "nat \<Rightarrow> real"
  choice_Platform :: "nat \<Rightarrow> string"
  base_sleep :: "nat \<Rightarrow> real"
  base_mental_health :: "nat \<Rightarrow> real"

definition n_samples :: nat where
  "n_samples = 300"




definition usage_of :: "draws \<Rightarrow> nat \<Rightarrow> real" where
  "usage_of d i = np_round 1 (uniform_Durasi d i)"

definition sleep_of :: "real \<Rightarrow> real \<Rightarrow> real" where
  "sleep_of base usage = np_round 1 (clip 3 10 (base - usage * (2 / 10)))"

definition mental_of :: "real \<Rightarrow> real \<Rightarrow> int" where
  "mental_of base usage = astype_int (clip 10 100 (base - usage * (25 / 10)))"

definition gen_row :: "draws \<Rightarrow> nat \<Rightarrow> row" where
  "gen_row d i =
     \<lparr> Jenis_Kelamin = choice_Jenis_Kelamin d i,
       Tingkat_Pendidikan = choice_Tingkat_Pendidikan d i,
       Durasi_Penggunaan_Harian = usage_of d i,
       Platform_Terbanyak_Digunakan = choice_Platform d i,
       Durasi_Tidur = sleep_of (base_sleep d i) (usage_of d i),
       Skor_Kesehatan_Mental = mental_of (base_mental_health d i) (usage_of d i) \<rparr>"

definition load_and_clean_data :: "draws \<Rightarrow> dataframe" where
  "load_and_clean_data d = map (gen_row d) [0..<n_samples]"



section \<open>main: the sidebar filter and the four metrics\<close>

text \<open>
  \<open>df[mask]\<close>, boolean indexing: the rows whose mask entry is true, in order.
\<close>

definition boolean_index :: "dataframe \<Rightarrow> bool list \<Rightarrow> dataframe" where
  "boolean_index df bmask = map fst (filter snd (zip df bmask))"

text \<open>
  The block \<open># Terapkan filter\<close> of \<open>main\<close>. Each selector is a string from a
  select box whose first option is \<open>'Semua'\<close> (all); any other value narrows the
  table to the rows that carry it. The copy of line 263 is the table itself, since
  nothing is mutated afterwards.
\<close>

definition filtered_df :: "dataframe \<Rightarrow> string \<Rightarrow> string \<Rightarrow> dataframe" where
  "filtered_df df selected_pendidikan selected_gender =
     (let f0 = df;
          f1 = (if selected_pendidikan \<noteq> ''Semua''
                then boolean_index f0 (map (\<lambda>r. Tingkat_Pendidikan r = selected_pendidikan) f0)
                else f0);
          f2 = (if selected_gender \<noteq> ''Semua''
                then boolean_index f1 (map (\<lambda>r. Jenis_Kelamin r = selected_gender) f1)
                else f1)
      in f2)"

text \<open>
  \<open>Series.mean()\<close>: the sum over the count, and NaN when there is nothing to
  average.
\<close>

definition Series_mean :: "real list \<Rightarrow> float64" where
  "Series_mean xs =
     (if length xs = 0 then NaN else Fin (sum_list xs / of_nat (length xs)))"

text \<open>
  The block \<open># Metrik Utama\<close> of \<open>main\<close>: the four values that are put into the
  metric cards. Each average is the Python float that \<open>mean()\<close> returns.
\<close>

record metrik =
  total_responden :: nat
  avg_usage :: pyobj
  avg_sleep :: pyobj
  avg_health :: pyobj

definition metrik_utama :: "dataframe \<Rightarrow> metrik" where
  "metrik_utama df =
     \<lparr> total_responden = length df,
       avg_usage = PyFloat (Series_mean (map Durasi_Penggunaan_Harian df)),
       avg_sleep = PyFloat (Series_mean (map Durasi_Tidur df)),
       avg_health = PyFloat (Series_mean (map (\<lambda>r. of_int (Skor_Kesehatan_Mental r)) df)) \<rparr>"

section \<open>groupby\<close>

text \<open>
  \<open>df.groupby(keys)[column]\<close> followed by \<open>mean\<close> and \<open>count\<close>. The group keys are
  the key values that occur in the table, each once, in sorted order (\<open>sort=True\<close> is
  the default of \<open>groupby\<close>). The aggregation is one pass over the rows that adds each
  value to the running sum of its group and counts it; the mean of a group is its sum
  over its count.
\<close>

definition group_keys :: "(row \<Rightarrow> 'k::linorder) \<Rightarrow> dataframe \<Rightarrow> 'k list" where
  "group_keys key df = sort (remdups (map key df))"

fun group_sums ::
  "(row \<Rightarrow> 'k) \<Rightarrow> (row \<Rightarrow> real) \<Rightarrow> dataframe \<Rightarrow> ('k \<Rightarrow> real \<times> nat) \<Rightarrow> ('k \<Rightarrow> real \<times> nat)" where
  "group_sums key val [] acc = acc"
| "group_sums key val (r # rs) acc =
     group_sums key val rs (acc (key r := (fst (acc (key r)) + val r, snd (acc (key r)) + 1)))"

definition groupby_agg ::
  "(row \<Rightarrow> 'k::linorder) \<Rightarrow> (row \<Rightarrow> real) \<Rightarrow> dataframe \<Rightarrow> ('k \<times> real \<times> nat) list" where
  "groupby_agg key val df =
     (let acc = group_sums key val df (\<lambda>k. (0, 0))
      in map (\<lambda>k. (k, fst (acc k) / of_nat (snd (acc k)), snd (acc k))) (group_keys key df))"

section \<open>visualisasi\_demografi\<close>

text \<open>
  Line 98: the table \<open>agg_df\<close>, grouped by education level and gender, with the mean
  usage of each group rounded to two decimals. A row of \<open>agg_df\<close> is the pair of key
  values with the rounded mean.

  The value that the code rounds is the float64 mean of the group, which differs from
  the exact mean of the same numbers by a rounding error. Where the exact mean lies on
  a decimal tie this error decides the second decimal: for eleven values 1.0 and nine
  values 1.5 the exact mean is 1.225, the float64 mean lies just above it, and the code
  tabulates 1.23 where the exact mean rounds to 1.22. \<open>visualisasi_demografi_fl\<close> is
  therefore the table with the error of each group's mean written out as a parameter
  \<open>err\<close>, and \<open>visualisasi_demografi\<close> is the table for exact means, the case of
  no error.
\<close>

definition demografi_key :: "row \<Rightarrow> string \<times> string" where
  "demografi_key r = (Tingkat_Pendidikan r, Jenis_Kelamin r)"

definition visualisasi_demografi :: "dataframe \<Rightarrow> ((string \<times> string) \<times> real) list" where
  "visualisasi_demografi df =
     map (\<lambda>(k, m, n). (k, np_round 2 m))
       (groupby_agg demografi_key Durasi_Penggunaan_Harian df)"

definition visualisasi_demografi_fl ::
  "(string \<times> string \<Rightarrow> real) \<Rightarrow> dataframe \<Rightarrow> ((string \<times> string) \<times> real) list" where
  "visualisasi_demografi_fl err df =
     map (\<lambda>(k, m, n). (k, np_round 2 (m + err k)))
       (groupby_agg demografi_key Durasi_Penggunaan_Harian df)"

section \<open>visualisasi\_korelasi\<close>

text \<open>
  Lines 149 and 150: \<open>df[rel_cols].corr()\<close>. For the Pearson method pandas runs, for
  every pair of columns \<open>xi\<close>, \<open>yi\<close> with \<open>yi \<le> xi\<close>, one pass of Welford's
  method over the rows and stores the result at both \<open>[xi, yi]\<close> and \<open>[yi, xi]\<close>.
  The state of the pass is the record below. The pass skips rows with a non-finite
  cell; the columns here hold numbers only, so no row is skipped. With fewer
  observations than \<open>min_periods = 1\<close>, or with a zero divisor, the entry is NaN;
  otherwise it is the quotient, cut to the interval from -1 to 1.
\<close>

record welford =
  nobs :: nat
  meanx :: real
  meany :: real
  ssqdm_x :: real
  ssqdm_y :: real
  covxy :: real

definition welford_init :: welford where
  "welford_init = \<lparr> nobs = 0, meanx = 0, meany = 0, ssqdm_x = 0, ssqdm_y = 0, covxy = 0 \<rparr>"

definition nancorr_step :: "real \<times> real \<Rightarrow> welford \<Rightarrow> welford" where
  "nancorr_step p s =
     (let vx = fst p; vy = snd p;
          n = nobs s + 1;
          dx = vx - meanx s;
          dy = vy - meany s;
          mx = meanx s + 1 / of_nat n * dx;
          my = meany s + 1 / of_nat n * dy
      in \<lparr> nobs = n, meanx = mx, meany = my,
           ssqdm_x = ssqdm_x s + (vx - mx) * dx,
           ssqdm_y = ssqdm_y s + (vy - my) * dy,
           covxy = covxy s + (vx - mx) * dy \<rparr>)"

definition minp :: nat where
  "minp = 1"

definition nancorr_pair :: "real list \<Rightarrow> real list \<Rightarrow> float64" where
  "nancorr_pair xs ys =
     (let s = fold nancorr_step (zip xs ys) welford_init in
      if nobs s < minp then NaN
      else
        let divisor = sqrt (ssqdm_x s * ssqdm_y s) in
        if divisor \<noteq> 0 then
          (let val = covxy s / divisor in
           Fin (if val > 1 then 1 else if val < - 1 then - 1 else val))
        else NaN)"

definition nancorr :: "real list list \<Rightarrow> float64 list list" where
  "nancorr mat =
     (let K = length mat in
      map (\<lambda>i. map (\<lambda>j. if j \<le> i then nancorr_pair (mat ! i) (mat ! j)
                             else nancorr_pair (mat ! j) (mat ! i)) [0..<K]) [0..<K])"

text \<open>The three columns of \<open>rel_cols\<close>, as floats.\<close>

definition rel_cols :: "dataframe \<Rightarrow> real list list" where
  "rel_cols df =
     [map Durasi_Penggunaan_Harian df, map Durasi_Tidur df,
      map (\<lambda>r. of_int (Skor_Kesehatan_Mental r)) df]"

definition visualisasi_korelasi :: "dataframe \<Rightarrow> float64 list list" where
  "visualisasi_korelasi df = nancorr (rel_cols df)"

section \<open>visualisasi\_platform\<close>

text \<open>
  Lines 203 to 205: the table \<open>platform_df\<close>. \<open>platform_rows\<close> is the table after
  grouping, rounding to one decimal (the count is an integer column and stays as it
  is) and renaming; \<open>visualisasi_platform\<close> is that table sorted by
  \<open>Rata_Rata_Durasi\<close>, largest first.

  \<open>sort_values(..., ascending=False)\<close> reverses the column, sorts it ascending and
  reverses the result. The ascending sort is modelled by insertion sort, which is what
  the default sort amounts to on a short column; it keeps rows with equal values in the
  order of the grouped table. The general properties below hold for any order among
  equal values.
\<close>

record platform_row =
  Platform :: string
  Rata_Rata_Durasi :: real
  Jumlah_Pengguna :: nat

definition sort_values_desc :: "('a \<Rightarrow> real) \<Rightarrow> 'a list \<Rightarrow> 'a list" where
  "sort_values_desc f xs = rev (sort_key f (rev xs))"

definition platform_rows :: "dataframe \<Rightarrow> platform_row list" where
  "platform_rows df =
     map (\<lambda>(k, m, n). \<lparr> Platform = k, Rata_Rata_Durasi = np_round 1 m, Jumlah_Pengguna = n \<rparr>)
       (groupby_agg Platform_Terbanyak_Digunakan Durasi_Penggunaan_Harian df)"

definition visualisasi_platform :: "dataframe \<Rightarrow> platform_row list" where
  "visualisasi_platform df = sort_values_desc Rata_Rata_Durasi (platform_rows df)"

section \<open>Reference notions for the properties\<close>

text \<open>
  The mean of a group recomputed directly from the raw rows: the values of the rows
  that carry the key, summed and divided by their number.
\<close>

definition recomputed_mean :: "(row \<Rightarrow> 'k) \<Rightarrow> (row \<Rightarrow> real) \<Rightarrow> dataframe \<Rightarrow> 'k \<Rightarrow> real" where
  "recomputed_mean key val df k =
     sum_list (map val (filter (\<lambda>r. key r = k) df)) /
     of_nat (length (filter (\<lambda>r. key r = k) df))"

text \<open>The sample variance of a column.\<close>

definition variance :: "real list \<Rightarrow> real" where
  "variance xs =
     (let m = sum_list xs / of_nat (length xs) in
      sum_list (map (\<lambda>x. (x - m) ^ 2) xs) / (of_nat (length xs) - 1))"

text \<open>
  Welford's pass on a single column: count, running mean and running sum of squared
  deviations. The x part and the y part of \<open>nancorr_step\<close> are each such a pass.
\<close>

definition w1_step :: "real \<Rightarrow> nat \<times> real \<times> real \<Rightarrow> nat \<times> real \<times> real" where
  "w1_step v t =
     (case t of (n, m, S) \<Rightarrow>
        (n + 1, m + 1 / of_nat (n + 1) * (v - m),
         S + (v - (m + 1 / of_nat (n + 1) * (v - m))) * (v - m)))"

definition xpart :: "welford \<Rightarrow> nat \<times> real \<times> real" where
  "xpart s = (nobs s, meanx s, ssqdm_x s)"

definition ypart :: "welford \<Rightarrow> nat \<times> real \<times> real" where
  "ypart s = (nobs s, meany s, ssqdm_y s)"

section \<open>Concrete tables\<close>

text \<open>
  A fixed source of draws: every respondent is a male undergraduate on TikTok, with
  uniform draw 1.04, sleep noise 7.5 and mental-health noise 77.4.
\<close>

definition sample_draws :: draws where
  "sample_draws =
     \<lparr> choice_Jenis_Kelamin = (\<lambda>i. ''Laki-laki''),
       choice_Tingkat_Pendidikan = (\<lambda>i. ''Mahasiswa S1''),
       uniform_Durasi = (\<lambda>i. 104 / 100),
       choice_Platform = (\<lambda>i. ''TikTok''),
       base_sleep = (\<lambda>i. 75 / 10),
       base_mental_health = (\<lambda>i. 774 / 10) \<rparr>"

text \<open>A table of three respondents.\<close>

definition r1 :: row where
  "r1 = \<lparr> Jenis_Kelamin = ''Laki-laki'', Tingkat_Pendidikan = ''Mahasiswa S1'',
          Durasi_Penggunaan_Harian = 2, Platform_Terbanyak_Digunakan = ''TikTok'',
          Durasi_Tidur = 7, Skor_Kesehatan_Mental = 70 \<rparr>"

definition r2 :: row where
  "r2 = \<lparr> Jenis_Kelamin = ''Perempuan'', Tingkat_Pendidikan = ''Mahasiswa S1'',
          Durasi_Penggunaan_Harian = 4, Platform_Terbanyak_Digunakan = ''Instagram'',
          Durasi_Tidur = 6, Skor_Kesehatan_Mental = 65 \<rparr>"

definition r3 :: row where
  "r3 = \<lparr> Jenis_Kelamin = ''Perempuan'', Tingkat_Pendidikan = ''Pelajar SMA'',
          Durasi_Penggunaan_Harian = 9, Platform_Terbanyak_Digunakan = ''TikTok'',
          Durasi_Tidur = 5, Skor_Kesehatan_Mental = 60 \<rparr>"

definition small_df :: dataframe where
  "small_df = [r1, r2, r3]"

text \<open>Two respondents with the same usage and different sleep durations.\<close>

definition flat_df :: dataframe where
  "flat_df = [r1, r2 \<lparr> Durasi_Penggunaan_Harian := 2 \<rparr>]"

text \<open>
  Male undergraduates given by their usage: three of them with a high-school student,
  and the twenty whose exact mean usage is the decimal tie 1.225.
\<close>

definition student :: "real \<Rightarrow> row" where
  "student usage =
     \<lparr> Jenis_Kelamin = ''Laki-laki'', Tingkat_Pendidikan = ''Mahasiswa S1'',
       Durasi_Penggunaan_Harian = usage, Platform_Terbanyak_Digunakan = ''TikTok'',
       Durasi_Tidur = 7, Skor_Kesehatan_Mental = 60 \<rparr>"

definition third_df :: dataframe where
  "third_df = [student 1, student 1, r3, student 2]"

definition tie_mean_df :: dataframe where
  "tie_mean_df = replicate 11 (student 1) @ replicate 9 (student (15 / 10))"





section \<open>Properties of the element-wise operations\<close>

lemma rint_lower: "of_int (rint x) \<ge> x - 1 / 2"
  unfolding rint_def Let_def by (auto; linarith)

lemma rint_upper: "of_int (rint x) \<le> x + 1 / 2"
  unfolding rint_def Let_def by (auto; linarith)

lemma rint_of_int: "rint (of_int k) = k"
  unfolding rint_def Let_def by simp

lemma rint_mono_int_le: "of_int k \<le> x \<Longrightarrow> k \<le> rint x"
proof -
  assume h: "of_int k \<le> x"
  then have "k \<le> \<lfloor>x\<rfloor>" by (simp add: le_floor_iff)
  moreover have "\<lfloor>x\<rfloor> \<le> rint x" unfolding rint_def Let_def by auto
  ultimately show ?thesis by linarith
qed

lemma rint_mono_int_ge: "x \<le> of_int k \<Longrightarrow> rint x \<le> k"
proof -
  assume h: "x \<le> of_int k"
  show ?thesis
  proof (cases "x = of_int k")
    case True
    then show ?thesis by (simp add: rint_of_int)
  next
    case False
    with h have lt: "x < of_int k" by simp
    then have "\<lfloor>x\<rfloor> < k" by (simp add: floor_less_iff)
    moreover have "rint x \<le> \<lfloor>x\<rfloor> + 1" unfolding rint_def Let_def by auto
    ultimately show ?thesis by linarith
  qed
qed

lemma clip_bounds: "lower \<le> upper \<Longrightarrow> lower \<le> clip lower upper x \<and> clip lower upper x \<le> upper"
  unfolding clip_def by auto

lemma np_round_1_bounds:
  assumes "of_int a \<le> x" and "x \<le> of_int b"
  shows "of_int a \<le> np_round 1 x \<and> np_round 1 x \<le> of_int b"
proof -
  have "of_int (a * 10) \<le> x * 10" using assms(1) by simp
  then have lo: "a * 10 \<le> rint (x * 10)" by (rule rint_mono_int_le)
  have "x * 10 \<le> of_int (b * 10)" using assms(2) by simp
  then have hi: "rint (x * 10) \<le> b * 10" by (rule rint_mono_int_ge)
  have "(of_int (a * 10) :: real) \<le> of_int (rint (x * 10))"
    using lo by (simp only: of_int_le_iff)
  moreover have "(of_int (rint (x * 10)) :: real) \<le> of_int (b * 10)"
    using hi by (simp only: of_int_le_iff)
  ultimately show ?thesis unfolding np_round_def by simp
qed

lemma astype_int_bounds:
  assumes "0 \<le> a" and "of_int a \<le> x" and "x \<le> of_int b"
  shows "a \<le> astype_int x \<and> astype_int x \<le> b"
proof -
  have "(0::real) \<le> of_int a" using assms(1) by simp
  then have "0 \<le> x" using assms(2) by linarith
  then have "astype_int x = \<lfloor>x\<rfloor>" by (simp add: astype_int_def)
  moreover have "a \<le> \<lfloor>x\<rfloor>" using assms(2) by (simp add: le_floor_iff)
  moreover have "\<lfloor>x\<rfloor> \<le> b" using assms(3) by (simp add: floor_le_iff)
  ultimately show ?thesis by simp
qed

lemma sleep_of_bounds: "3 \<le> sleep_of base usage \<and> sleep_of base usage \<le> 10"
proof -
  have "(3::real) \<le> clip 3 10 (base - usage * (2 / 10)) \<and>
        clip 3 10 (base - usage * (2 / 10)) \<le> 10"
    by (rule clip_bounds) simp
  then have "of_int 3 \<le> clip 3 10 (base - usage * (2 / 10))"
    and "clip 3 10 (base - usage * (2 / 10)) \<le> of_int 10" by simp_all
  from np_round_1_bounds [OF this] show ?thesis by (simp add: sleep_of_def)
qed

lemma mental_of_bounds: "10 \<le> mental_of base usage \<and> mental_of base usage \<le> 100"
proof -
  have "(10::real) \<le> clip 10 100 (base - usage * (25 / 10)) \<and>
        clip 10 100 (base - usage * (25 / 10)) \<le> 100"
    by (rule clip_bounds) simp
  then have "of_int 10 \<le> clip 10 100 (base - usage * (25 / 10))"
    and "clip 10 100 (base - usage * (25 / 10)) \<le> of_int 100" by simp_all
  from astype_int_bounds [OF _ this] show ?thesis by (simp add: mental_of_def)
qed

lemma mental_of_floor:
  "mental_of base usage = \<lfloor>clip 10 100 (base - usage * (25 / 10))\<rfloor>"
proof -
  have "(10::real) \<le> clip 10 100 (base - usage * (25 / 10))"
    using clip_bounds [of 10 100] by simp
  then show ?thesis by (simp add: mental_of_def astype_int_def)
qed


lemma in_load_and_clean_data:
  "r \<in> set (load_and_clean_data d) \<longleftrightarrow> (\<exists>i < n_samples. r = gen_row d i)"
  by (auto simp: load_and_clean_data_def)

section \<open>The generator\<close>



text \<open>
  Claim C3. Every row that \<open>load_and_clean_data\<close> produces has its sleep duration
  between 3 and 10 and its mental-health score between 10 and 100, whatever the noise
  draws are. The bound needs nothing of the usage value, so it holds in particular for
  every usage between 1 and 12.
\<close>

theorem C3_clamp_invariant:
  "\<forall>r \<in> set (load_and_clean_data d).
     3 \<le> Durasi_Tidur r \<and> Durasi_Tidur r \<le> 10 \<and>
     10 \<le> Skor_Kesehatan_Mental r \<and> Skor_Kesehatan_Mental r \<le> 100"
proof
  fix r assume "r \<in> set (load_and_clean_data d)"
  then obtain i where r: "r = gen_row d i"
    by (auto simp: in_load_and_clean_data)
  show "3 \<le> Durasi_Tidur r \<and> Durasi_Tidur r \<le> 10 \<and>
        10 \<le> Skor_Kesehatan_Mental r \<and> Skor_Kesehatan_Mental r \<le> 100"
    using sleep_of_bounds [of "base_sleep d i" "usage_of d i"]
      mental_of_bounds [of "base_mental_health d i" "usage_of d i"]
    by (simp add: r gen_row_def)
qed

theorem C3_clamp_invariant_witness:
  "gen_row sample_draws 0 \<in> set (load_and_clean_data sample_draws) \<and>
   3 \<le> Durasi_Tidur (gen_row sample_draws 0) \<and>
   Durasi_Tidur (gen_row sample_draws 0) \<le> 10 \<and>
   10 \<le> Skor_Kesehatan_Mental (gen_row sample_draws 0) \<and>
   Skor_Kesehatan_Mental (gen_row sample_draws 0) \<le> 100"
proof -
  have m: "gen_row sample_draws 0 \<in> set (load_and_clean_data sample_draws)"
    unfolding in_load_and_clean_data n_samples_def by (rule exI [of _ 0]) simp
  from C3_clamp_invariant [of sample_draws] m show ?thesis by blast
qed

text \<open>
  Claim C10. The mental-health score is the clipped value
  \<open>base - 2.5 * usage\<close> (clipped to the interval from 10 to 100) with its fractional
  part dropped: on the clipped, non-negative value the conversion is the floor. It is
  not rounding to the nearest integer: noise 77.4 and usage 1.0 give 74.9, stored as 74
  where rounding would give 75. The stored score lies between 10 and 100.
\<close>

theorem C10_score_truncates:
  "Skor_Kesehatan_Mental (gen_row d i) =
     \<lfloor>clip 10 100 (base_mental_health d i - usage_of d i * (25 / 10))\<rfloor> \<and>
   of_int (Skor_Kesehatan_Mental (gen_row d i))
     \<le> clip 10 100 (base_mental_health d i - usage_of d i * (25 / 10)) \<and>
   clip 10 100 (base_mental_health d i - usage_of d i * (25 / 10))
     < of_int (Skor_Kesehatan_Mental (gen_row d i)) + 1 \<and>
   10 \<le> Skor_Kesehatan_Mental (gen_row d i) \<and>
   Skor_Kesehatan_Mental (gen_row d i) \<le> 100 \<and>
   mental_of (774 / 10) 1 = 74 \<and>
   rint (clip 10 100 (774 / 10 - 1 * (25 / 10))) = 75"
proof -
  let ?c = "clip 10 100 (base_mental_health d i - usage_of d i * (25 / 10))"
  have e: "Skor_Kesehatan_Mental (gen_row d i) = \<lfloor>?c\<rfloor>"
    by (simp add: gen_row_def mental_of_floor)
  have b: "10 \<le> Skor_Kesehatan_Mental (gen_row d i) \<and> Skor_Kesehatan_Mental (gen_row d i) \<le> 100"
    using mental_of_bounds [of "base_mental_health d i" "usage_of d i"]
    by (simp add: gen_row_def)
  have l: "of_int \<lfloor>?c\<rfloor> \<le> ?c" by (rule of_int_floor_le)
  have u: "?c < of_int \<lfloor>?c\<rfloor> + 1" by linarith
  have x1: "mental_of (774 / 10) 1 = 74"
    by (simp add: mental_of_def clip_def astype_int_def)
  have x2: "rint (clip 10 100 (774 / 10 - 1 * (25 / 10))) = 75"
    by (simp add: clip_def rint_def Let_def)
  show ?thesis using e b l u x1 x2 by simp
qed

section \<open>The filter\<close>

lemma boolean_index_filter: "boolean_index df (map P df) = filter P df"
  unfolding boolean_index_def by (induction df) auto

lemma filtered_df_filter:
  "filtered_df df p g =
     filter (\<lambda>r. (p = ''Semua'' \<or> Tingkat_Pendidikan r = p) \<and>
                  (g = ''Semua'' \<or> Jenis_Kelamin r = g)) df"
  unfolding filtered_df_def Let_def boolean_index_filter
  by (auto intro: filter_cong)

text \<open>
  Claim C2. A selector is either \<open>'Semua'\<close> (no constraint) or a literal value. For
  every table and every pair of selectors the filter returns exactly the rows that meet
  both selectors, in their order; if none does, the result is the empty table; and a
  literal that no row carries in that column gives the empty table.
\<close>

theorem C2_filter_conjunction:
  "filtered_df df p g =
     filter (\<lambda>r. (p = ''Semua'' \<or> Tingkat_Pendidikan r = p) \<and>
                  (g = ''Semua'' \<or> Jenis_Kelamin r = g)) df
   \<and> ((\<forall>r \<in> set df. \<not> ((p = ''Semua'' \<or> Tingkat_Pendidikan r = p) \<and>
                          (g = ''Semua'' \<or> Jenis_Kelamin r = g)))
        \<longrightarrow> filtered_df df p g = [])
   \<and> (p \<noteq> ''Semua'' \<and> p \<notin> Tingkat_Pendidikan ` set df \<longrightarrow> filtered_df df p g = [])
   \<and> (g \<noteq> ''Semua'' \<and> g \<notin> Jenis_Kelamin ` set df \<longrightarrow> filtered_df df p g = [])"
proof -
  let ?P = "\<lambda>r. (p = ''Semua'' \<or> Tingkat_Pendidikan r = p) \<and>
                 (g = ''Semua'' \<or> Jenis_Kelamin r = g)"
  have e: "filtered_df df p g = filter ?P df" by (rule filtered_df_filter)
  have a: "(\<forall>r \<in> set df. \<not> ?P r) \<longrightarrow> filter ?P df = []"
    by (simp add: filter_empty_conv)
  have b: "p \<noteq> ''Semua'' \<and> p \<notin> Tingkat_Pendidikan ` set df \<longrightarrow> filter ?P df = []"
    by (auto simp: filter_empty_conv)
  have c: "g \<noteq> ''Semua'' \<and> g \<notin> Jenis_Kelamin ` set df \<longrightarrow> filter ?P df = []"
    by (auto simp: filter_empty_conv)
  show ?thesis using a b c unfolding e by blast
qed

theorem C2_filter_conjunction_witness:
  "filtered_df small_df ''Mahasiswa S1'' ''Perempuan'' = [r2] \<and>
   filtered_df small_df ''Mahasiswa S1'' ''Semua'' = [r1, r2] \<and>
   ''Doktor'' \<noteq> ''Semua'' \<and> ''Doktor'' \<notin> Tingkat_Pendidikan ` set small_df \<and>
   filtered_df small_df ''Doktor'' ''Semua'' = [] \<and>
   ''Lainnya'' \<noteq> ''Semua'' \<and> ''Lainnya'' \<notin> Jenis_Kelamin ` set small_df \<and>
   filtered_df small_df ''Semua'' ''Lainnya'' = [] \<and>
   \<not> (\<exists>r \<in> set small_df. (''Pelajar SMA'' = ''Semua'' \<or> Tingkat_Pendidikan r = ''Pelajar SMA'') \<and>
                            (''Laki-laki'' = ''Semua'' \<or> Jenis_Kelamin r = ''Laki-laki'')) \<and>
   filtered_df small_df ''Pelajar SMA'' ''Laki-laki'' = []"
proof -
  have h1: "''Doktor'' \<noteq> ''Semua'' \<and> ''Doktor'' \<notin> Tingkat_Pendidikan ` set small_df"
    by (simp add: small_df_def r1_def r2_def r3_def)
  have h2: "''Lainnya'' \<noteq> ''Semua'' \<and> ''Lainnya'' \<notin> Jenis_Kelamin ` set small_df"
    by (simp add: small_df_def r1_def r2_def r3_def)
  have h3: "\<forall>r \<in> set small_df.
      \<not> ((''Pelajar SMA'' = ''Semua'' \<or> Tingkat_Pendidikan r = ''Pelajar SMA'') \<and>
         (''Laki-laki'' = ''Semua'' \<or> Jenis_Kelamin r = ''Laki-laki''))"
    by (simp add: small_df_def r1_def r2_def r3_def)
  have a: "filtered_df small_df ''Mahasiswa S1'' ''Perempuan'' = [r2]"
    using C2_filter_conjunction [of small_df "''Mahasiswa S1''" "''Perempuan''"]
    by (simp add: small_df_def r1_def r2_def r3_def)
  have b: "filtered_df small_df ''Mahasiswa S1'' ''Semua'' = [r1, r2]"
    using C2_filter_conjunction [of small_df "''Mahasiswa S1''" "''Semua''"]
    by (simp add: small_df_def r1_def r2_def r3_def)
  have c: "filtered_df small_df ''Doktor'' ''Semua'' = []"
    using C2_filter_conjunction [of small_df "''Doktor''" "''Semua''"] h1 by blast
  have d: "filtered_df small_df ''Semua'' ''Lainnya'' = []"
    using C2_filter_conjunction [of small_df "''Semua''" "''Lainnya''"] h2 by blast
  have e: "filtered_df small_df ''Pelajar SMA'' ''Laki-laki'' = []"
    using C2_filter_conjunction [of small_df "''Pelajar SMA''" "''Laki-laki''"] h3 by blast
  show ?thesis using a b c d e h1 h2 h3 by blast
qed

text \<open>
  Claim C8. With both selectors at \<open>'Semua'\<close> the filter returns the table it was
  given.
\<close>

theorem C8_filter_identity: "filtered_df df ''Semua'' ''Semua'' = df"
  by (simp add: filtered_df_def)

section \<open>The metrics of an empty table\<close>

text \<open>
  Claim C1, as the code has it. For the empty table the count is 0 and each of the
  three averages is the float NaN, the undefined value that \<open>mean()\<close> returns when
  there is nothing to average. It is a float, so it is not the object \<open>None\<close>, and it
  is not the number zero.
\<close>

theorem C1_empty_metrics_nan:
  "total_responden (metrik_utama []) = 0 \<and>
   avg_usage (metrik_utama []) = PyFloat NaN \<and>
   avg_sleep (metrik_utama []) = PyFloat NaN \<and>
   avg_health (metrik_utama []) = PyFloat NaN \<and>
   avg_usage (metrik_utama []) \<noteq> PyFloat (Fin 0) \<and>
   avg_sleep (metrik_utama []) \<noteq> PyFloat (Fin 0) \<and>
   avg_health (metrik_utama []) \<noteq> PyFloat (Fin 0)"
  by (simp add: metrik_utama_def Series_mean_def)

text \<open>
  Claim C1, as stated, asks for a marker that is set apart from the floats: the
  averages of the empty table would each be the object \<open>None\<close>. None of them is.
\<close>

theorem C1_no_data_marker_counterexample:
  "\<not> (total_responden (metrik_utama []) = 0 \<and>
      avg_usage (metrik_utama []) = PyNone \<and>
      avg_sleep (metrik_utama []) = PyNone \<and>
      avg_health (metrik_utama []) = PyNone)"
  by (simp add: metrik_utama_def)

section \<open>Grouping and the grouped mean\<close>

lemma group_sums_eq:
  "group_sums key val df acc k =
     (fst (acc k) + sum_list (map val (filter (\<lambda>r. key r = k) df)),
      snd (acc k) + length (filter (\<lambda>r. key r = k) df))"
  by (induction df arbitrary: acc) auto

lemma groupby_agg_eq:
  "groupby_agg key val df =
     map (\<lambda>k. (k, recomputed_mean key val df k, length (filter (\<lambda>r. key r = k) df)))
       (group_keys key df)"
  by (simp add: groupby_agg_def Let_def group_sums_eq recomputed_mean_def)

lemma set_group_keys: "set (group_keys key df) = key ` set df"
  by (simp add: group_keys_def)

lemma distinct_group_keys: "distinct (group_keys key df)"
  by (simp add: group_keys_def)

lemma sorted_group_keys: "sorted (group_keys key df)"
  by (simp add: group_keys_def)



lemma keys_visualisasi_demografi:
  "map fst (visualisasi_demografi df) = group_keys demografi_key df"
  by (simp add: visualisasi_demografi_def groupby_agg_eq comp_def)





lemma remdups_map_inj: "inj f \<Longrightarrow> remdups (map f xs) = map f (remdups xs)"
  by (induction xs) (auto simp: inj_def)

lemma sort_map_Pair: "sort (map (Pair e) ys) = map (Pair e) (sort ys)"
proof (rule properties_for_sort)
  show "mset (map (Pair e) (sort ys)) = mset (map (Pair e) ys)" by simp
  have "sorted (sort ys)" by simp
  then show "sorted (map (Pair e) (sort ys))"
    by (simp add: sorted_map sorted_wrt_iff_nth_less)
qed

lemma group_keys_fixed_pendidikan:
  assumes "\<forall>r \<in> set df. Tingkat_Pendidikan r = e"
  shows "group_keys demografi_key df = map (Pair e) (group_keys Jenis_Kelamin df)"
proof -
  have "map demografi_key df = map (Pair e) (map Jenis_Kelamin df)"
    using assms by (simp add: demografi_key_def)
  moreover have "remdups (map (Pair e) xs) = map (Pair e) (remdups xs)" for xs :: "string list"
    by (rule remdups_map_inj) (simp add: inj_def)
  ultimately show ?thesis
    by (simp only: group_keys_def sort_map_Pair)
qed


lemma two_decimals: "\<exists>z::int. np_round 2 x = of_int z / 100"
  by (auto simp: np_round_def)

lemma np_round_2_error: "\<bar>np_round 2 x - x\<bar> \<le> 5 / 1000"
proof -
  define y where "y = (of_int (rint (x * 100)) :: real)"
  have "x * 100 - 1 / 2 \<le> y" and "y \<le> x * 100 + 1 / 2"
    unfolding y_def using rint_lower [of "x * 100"] rint_upper [of "x * 100"] by simp_all
  then have b: "\<bar>y / 100 - x\<bar> \<le> 5 / 1000" by linarith
  have e: "np_round 2 x = y / 100" by (simp add: np_round_def y_def)
  show ?thesis unfolding e by (rule b)
qed

lemma np_round_2_perturbed:
  assumes "\<bar>e\<bar> \<le> \<delta>"
  shows "\<bar>np_round 2 (m + e) - m\<bar> \<le> 5 / 1000 + \<delta>"
proof -
  have "\<bar>np_round 2 (m + e) - (m + e)\<bar> \<le> 5 / 1000" by (rule np_round_2_error)
  with assms show ?thesis by linarith
qed

lemma visualisasi_demografi_fl_eq:
  "visualisasi_demografi_fl err df =
     map (\<lambda>k. (k, np_round 2
              (recomputed_mean demografi_key Durasi_Penggunaan_Harian df k + err k)))
       (group_keys demografi_key df)"
  by (simp add: visualisasi_demografi_fl_def groupby_agg_eq)

lemma keys_visualisasi_demografi_fl:
  "map fst (visualisasi_demografi_fl err df) = group_keys demografi_key df"
  by (simp add: visualisasi_demografi_fl_eq comp_def)

lemma in_visualisasi_demografi_fl:
  "(k, v) \<in> set (visualisasi_demografi_fl err df) \<longleftrightarrow>
     k \<in> demografi_key ` set df \<and>
     v = np_round 2 (recomputed_mean demografi_key Durasi_Penggunaan_Harian df k + err k)"
  unfolding visualisasi_demografi_fl_eq by (auto simp: set_group_keys)

lemma visualisasi_demografi_exact:
  "visualisasi_demografi df = visualisasi_demografi_fl (\<lambda>k. 0) df"
  by (simp add: visualisasi_demografi_def visualisasi_demografi_fl_def)

lemma filtered_df_pendidikan:
  "e \<noteq> ''Semua'' \<Longrightarrow> filtered_df df e ''Semua'' = filter (\<lambda>r. Tingkat_Pendidikan r = e) df"
  by (simp add: filtered_df_def boolean_index_filter)

lemma recomputed_mean_filtered:
  assumes "e \<noteq> ''Semua''"
  shows "recomputed_mean demografi_key val (filtered_df df e ''Semua'') (e, g) =
         recomputed_mean demografi_key val df (e, g)"
proof -
  have "filter (\<lambda>r. demografi_key r = (e, g)) (filter (\<lambda>r. Tingkat_Pendidikan r = e) df) =
        filter (\<lambda>r. demografi_key r = (e, g)) df"
    by (auto simp: demografi_key_def intro: filter_cong)
  then show ?thesis
    by (simp add: recomputed_mean_def filtered_df_pendidikan [OF assms])
qed

lemma recomputed_mean_tie_mean_df:
  "recomputed_mean demografi_key Durasi_Penggunaan_Harian tie_mean_df
     (''Mahasiswa S1'', ''Laki-laki'') = 1225 / 1000"
  by (simp add: recomputed_mean_def tie_mean_df_def demografi_key_def student_def
      sum_list_replicate)

lemma remdups_replicate_Suc: "remdups (replicate (Suc n) x) = [x]"
  by (induction n) simp_all

lemma group_keys_tie_mean_df:
  "group_keys demografi_key tie_mean_df = [(''Mahasiswa S1'', ''Laki-laki'')]"
proof -
  have "map demografi_key tie_mean_df = replicate (Suc 19) (''Mahasiswa S1'', ''Laki-laki'')"
    by (simp add: tie_mean_df_def demografi_key_def student_def flip: replicate_add)
  then show ?thesis by (simp only: group_keys_def remdups_replicate_Suc) simp
qed

text \<open>
  Claim C4, as the code has it. The grouped mean has one row for every pair of
  education level and gender that occurs in the table, in sorted key order, each key
  once. The value of a row is the mean usage of its group rounded to two decimals: a
  multiple of 0.01 that lies within 0.005 of the mean recomputed directly from the raw
  rows, plus the error \<open>\<delta>\<close> of the float64 mean that is rounded. The table for exact
  means is the case of no error. After the filter for one education level \<open>e\<close> the
  result has exactly one row per gender present among the filtered rows, in sorted
  order, and the group of \<open>(e, g)\<close> holds the same raw rows as in the unfiltered table.
\<close>

theorem C4_grouped_mean:
  assumes "\<forall>k. \<bar>err k\<bar> \<le> \<delta>"
  shows
  "map fst (visualisasi_demografi_fl err df) = sort (remdups (map demografi_key df)) \<and>
   sorted (map fst (visualisasi_demografi_fl err df)) \<and>
   distinct (map fst (visualisasi_demografi_fl err df)) \<and>
   (\<forall>(k, v) \<in> set (visualisasi_demografi_fl err df).
      k \<in> demografi_key ` set df \<and>
      \<bar>v - recomputed_mean demografi_key Durasi_Penggunaan_Harian df k\<bar> \<le> 5 / 1000 + \<delta> \<and>
      (\<exists>z::int. v = of_int z / 100)) \<and>
   visualisasi_demografi df = visualisasi_demografi_fl (\<lambda>k. 0) df \<and>
   (e \<noteq> ''Semua'' \<longrightarrow>
      map fst (visualisasi_demografi_fl err (filtered_df df e ''Semua'')) =
        map (Pair e) (sort (remdups (map Jenis_Kelamin (filtered_df df e ''Semua'')))) \<and>
      (\<forall>g. recomputed_mean demografi_key Durasi_Penggunaan_Harian (filtered_df df e ''Semua'') (e, g) =
           recomputed_mean demografi_key Durasi_Penggunaan_Harian df (e, g)))"
proof -
  have a: "map fst (visualisasi_demografi_fl err df) = sort (remdups (map demografi_key df))"
    by (simp add: keys_visualisasi_demografi_fl group_keys_def)
  have b: "sorted (map fst (visualisasi_demografi_fl err df))"
    by (simp add: keys_visualisasi_demografi_fl sorted_group_keys)
  have c: "distinct (map fst (visualisasi_demografi_fl err df))"
    by (simp add: keys_visualisasi_demografi_fl distinct_group_keys)
  have d: "\<forall>(k, v) \<in> set (visualisasi_demografi_fl err df).
      k \<in> demografi_key ` set df \<and>
      \<bar>v - recomputed_mean demografi_key Durasi_Penggunaan_Harian df k\<bar> \<le> 5 / 1000 + \<delta> \<and>
      (\<exists>z::int. v = of_int z / 100)"
  proof (clarify, intro conjI)
    fix k v assume "(k, v) \<in> set (visualisasi_demografi_fl err df)"
    then have k: "k \<in> demografi_key ` set df"
      and v: "v = np_round 2 (recomputed_mean demografi_key Durasi_Penggunaan_Harian df k + err k)"
      by (simp_all add: in_visualisasi_demografi_fl)
    have e: "\<bar>err k\<bar> \<le> \<delta>" by (rule assms [rule_format])
    show "k \<in> demografi_key ` set df" by (rule k)
    show "\<bar>v - recomputed_mean demografi_key Durasi_Penggunaan_Harian df k\<bar> \<le> 5 / 1000 + \<delta>"
      unfolding v by (rule np_round_2_perturbed [OF e])
    show "\<exists>z::int. v = of_int z / 100" unfolding v by (rule two_decimals)
  qed
  have f: "e \<noteq> ''Semua'' \<longrightarrow>
      map fst (visualisasi_demografi_fl err (filtered_df df e ''Semua'')) =
        map (Pair e) (sort (remdups (map Jenis_Kelamin (filtered_df df e ''Semua'')))) \<and>
      (\<forall>g. recomputed_mean demografi_key Durasi_Penggunaan_Harian (filtered_df df e ''Semua'') (e, g) =
           recomputed_mean demografi_key Durasi_Penggunaan_Harian df (e, g))"
  proof (intro impI conjI allI)
    assume e: "e \<noteq> ''Semua''"
    have "\<forall>r \<in> set (filtered_df df e ''Semua''). Tingkat_Pendidikan r = e"
      by (simp add: filtered_df_pendidikan [OF e])
    from group_keys_fixed_pendidikan [OF this]
    show "map fst (visualisasi_demografi_fl err (filtered_df df e ''Semua'')) =
        map (Pair e) (sort (remdups (map Jenis_Kelamin (filtered_df df e ''Semua''))))"
      by (simp add: keys_visualisasi_demografi_fl group_keys_def)
    fix g
    show "recomputed_mean demografi_key Durasi_Penggunaan_Harian (filtered_df df e ''Semua'') (e, g) =
           recomputed_mean demografi_key Durasi_Penggunaan_Harian df (e, g)"
      by (rule recomputed_mean_filtered [OF e])
  qed
  from a b c d visualisasi_demografi_exact [of df] f show ?thesis by blast
qed

theorem C4_grouped_mean_witness:
  "\<bar>1 / 10 ^ 16 :: real\<bar> \<le> 1 / 10 ^ 16 \<and>
   visualisasi_demografi_fl (\<lambda>k. 1 / 10 ^ 16) tie_mean_df =
     [((''Mahasiswa S1'', ''Laki-laki''), 123 / 100)] \<and>
   visualisasi_demografi tie_mean_df = [((''Mahasiswa S1'', ''Laki-laki''), 122 / 100)] \<and>
   recomputed_mean demografi_key Durasi_Penggunaan_Harian tie_mean_df
     (''Mahasiswa S1'', ''Laki-laki'') = 1225 / 1000 \<and>
   \<bar>123 / 100 - recomputed_mean demografi_key Durasi_Penggunaan_Harian tie_mean_df
       (''Mahasiswa S1'', ''Laki-laki'')\<bar> \<le> 5 / 1000 + 1 / 10 ^ 16 \<and>
   ''Mahasiswa S1'' \<noteq> ''Semua'' \<and>
   map fst (visualisasi_demografi_fl (\<lambda>k. 1 / 10 ^ 16)
       (filtered_df small_df ''Mahasiswa S1'' ''Semua'')) =
     [(''Mahasiswa S1'', ''Laki-laki''), (''Mahasiswa S1'', ''Perempuan'')] \<and>
   map (Pair ''Mahasiswa S1'')
     (sort (remdups (map Jenis_Kelamin (filtered_df small_df ''Mahasiswa S1'' ''Semua'')))) =
     [(''Mahasiswa S1'', ''Laki-laki''), (''Mahasiswa S1'', ''Perempuan'')]"
proof -
  have h: "\<forall>k :: string \<times> string. \<bar>1 / 10 ^ 16 :: real\<bar> \<le> 1 / 10 ^ 16" by simp
  have fl: "visualisasi_demografi_fl (\<lambda>k. 1 / 10 ^ 16) tie_mean_df =
     [((''Mahasiswa S1'', ''Laki-laki''), 123 / 100)]"
    by (simp add: visualisasi_demografi_fl_eq group_keys_tie_mean_df recomputed_mean_tie_mean_df
        np_round_def rint_def Let_def)
  have ex: "visualisasi_demografi tie_mean_df = [((''Mahasiswa S1'', ''Laki-laki''), 122 / 100)]"
    by (simp add: visualisasi_demografi_exact visualisasi_demografi_fl_eq group_keys_tie_mean_df
        recomputed_mean_tie_mean_df np_round_def rint_def Let_def)
  have m: "((''Mahasiswa S1'', ''Laki-laki''), 123 / 100)
      \<in> set (visualisasi_demografi_fl (\<lambda>k. 1 / 10 ^ 16) tie_mean_df)"
    unfolding fl by simp
  have e: "''Mahasiswa S1'' \<noteq> ''Semua''" by simp
  have s: "map (Pair ''Mahasiswa S1'')
     (sort (remdups (map Jenis_Kelamin (filtered_df small_df ''Mahasiswa S1'' ''Semua'')))) =
     [(''Mahasiswa S1'', ''Laki-laki''), (''Mahasiswa S1'', ''Perempuan'')]"
    by (simp add: filtered_df_def boolean_index_def small_df_def r1_def r2_def r3_def)
  note tie = C4_grouped_mean [OF h, of tie_mean_df "''Mahasiswa S1''"]
  note small = C4_grouped_mean [OF h, of small_df "''Mahasiswa S1''"]
  have rows: "\<forall>(k, v) \<in> set (visualisasi_demografi_fl (\<lambda>k. 1 / 10 ^ 16) tie_mean_df).
      k \<in> demografi_key ` set tie_mean_df \<and>
      \<bar>v - recomputed_mean demografi_key Durasi_Penggunaan_Harian tie_mean_df k\<bar>
        \<le> 5 / 1000 + 1 / 10 ^ 16 \<and>
      (\<exists>z::int. v = of_int z / 100)"
    by (rule tie [THEN conjunct2, THEN conjunct2, THEN conjunct2, THEN conjunct1])
  have bound: "\<bar>123 / 100 - recomputed_mean demografi_key Durasi_Penggunaan_Harian tie_mean_df
       (''Mahasiswa S1'', ''Laki-laki'')\<bar> \<le> 5 / 1000 + 1 / 10 ^ 16"
    using bspec [OF rows m] by (simp only: prod.case)
  have "''Mahasiswa S1'' \<noteq> ''Semua'' \<longrightarrow>
      map fst (visualisasi_demografi_fl (\<lambda>k. 1 / 10 ^ 16)
          (filtered_df small_df ''Mahasiswa S1'' ''Semua'')) =
        map (Pair ''Mahasiswa S1'')
          (sort (remdups (map Jenis_Kelamin (filtered_df small_df ''Mahasiswa S1'' ''Semua'')))) \<and>
      (\<forall>g. recomputed_mean demografi_key Durasi_Penggunaan_Harian
             (filtered_df small_df ''Mahasiswa S1'' ''Semua'') (''Mahasiswa S1'', g) =
           recomputed_mean demografi_key Durasi_Penggunaan_Harian small_df (''Mahasiswa S1'', g))"
    by (rule small [THEN conjunct2, THEN conjunct2, THEN conjunct2, THEN conjunct2, THEN conjunct2])
  from this [THEN mp, OF e, THEN conjunct1]
  have keys: "map fst (visualisasi_demografi_fl (\<lambda>k. 1 / 10 ^ 16)
       (filtered_df small_df ''Mahasiswa S1'' ''Semua'')) =
     [(''Mahasiswa S1'', ''Laki-laki''), (''Mahasiswa S1'', ''Perempuan'')]"
    by (simp only: s)
  have t: "\<bar>1 / 10 ^ 16 :: real\<bar> \<le> 1 / 10 ^ 16" by simp
  show ?thesis
    by (intro conjI t fl ex recomputed_mean_tie_mean_df bound e keys s)
qed

text \<open>
  Claim C4, as stated, has every average match a direct recomputation from the raw
  rows within 1e-6. In \<open>third_df\<close> the male undergraduates have the usages 1, 1 and 2;
  after the filter for the undergraduates the table shows 1.33 for them, the direct
  recomputation of their mean is 4/3, and the two differ by 1/300.
\<close>

theorem C4_tolerance_counterexample:
  "visualisasi_demografi (filtered_df third_df ''Mahasiswa S1'' ''Semua'') =
     [((''Mahasiswa S1'', ''Laki-laki''), 133 / 100)] \<and>
   recomputed_mean demografi_key Durasi_Penggunaan_Harian
     (filtered_df third_df ''Mahasiswa S1'' ''Semua'') (''Mahasiswa S1'', ''Laki-laki'') = 4 / 3 \<and>
   \<bar>133 / 100 - (4 / 3 :: real)\<bar> = 1 / 300 \<and>
   \<not> \<bar>133 / 100 - recomputed_mean demografi_key Durasi_Penggunaan_Harian
         (filtered_df third_df ''Mahasiswa S1'' ''Semua'') (''Mahasiswa S1'', ''Laki-laki'')\<bar>
       \<le> 1 / 10 ^ 6"
proof -
  have t: "filtered_df third_df ''Mahasiswa S1'' ''Semua'' = [student 1, student 1, student 2]"
    by (simp add: filtered_df_def boolean_index_def third_df_def student_def r3_def)
  have v: "visualisasi_demografi [student 1, student 1, student 2] =
     [((''Mahasiswa S1'', ''Laki-laki''), 133 / 100)]"
    by (simp add: visualisasi_demografi_def groupby_agg_def group_keys_def demografi_key_def
        student_def np_round_def rint_def Let_def)
  have r: "recomputed_mean demografi_key Durasi_Penggunaan_Harian
      [student 1, student 1, student 2] (''Mahasiswa S1'', ''Laki-laki'') = 4 / 3"
    by (simp add: recomputed_mean_def demografi_key_def student_def)
  show ?thesis unfolding t v r by simp
qed

















section \<open>The platform ranking\<close>







section \<open>Welford's pass and the variance\<close>

lemma xpart_step: "xpart (nancorr_step p s) = w1_step (fst p) (xpart s)"
  by (simp add: xpart_def nancorr_step_def w1_step_def Let_def)

lemma ypart_step: "ypart (nancorr_step p s) = w1_step (snd p) (ypart s)"
  by (simp add: ypart_def nancorr_step_def w1_step_def Let_def)

lemma xpart_fold: "xpart (fold nancorr_step ps s) = fold w1_step (map fst ps) (xpart s)"
  by (induction ps arbitrary: s) (simp_all add: xpart_step)

lemma ypart_fold: "ypart (fold nancorr_step ps s) = fold w1_step (map snd ps) (ypart s)"
  by (induction ps arbitrary: s) (simp_all add: ypart_step)

lemma w1_incr:
  "snd (snd (w1_step v (n, m, S))) = S + (v - m) ^ 2 * (of_nat n / of_nat (n + 1))"
proof -
  have aux: "(v - (m + a * (v - m))) * (v - m) = (v - m) ^ 2 * (1 - a)" for a :: real
    by (simp add: power2_eq_square algebra_simps)
  have "(v - (m + 1 / of_nat (n + 1) * (v - m))) * (v - m)
        = (v - m) ^ 2 * (1 - 1 / of_nat (n + 1))"
    by (rule aux)
  also have "(1 - 1 / (of_nat (n + 1) :: real)) = of_nat n / of_nat (n + 1)"
    by (simp add: field_simps)
  finally show ?thesis by (simp add: w1_step_def)
qed

lemma w1_nobs: "fst (fold w1_step vs t) = fst t + length vs"
  by (induction vs arbitrary: t) (auto simp: w1_step_def split: prod.splits)

lemma w1_mono: "snd (snd t) \<le> snd (snd (w1_step v t))"
proof -
  obtain n m S where t: "t = (n, m, S)" by (cases t)
  have "0 \<le> (v - m) ^ 2 * (of_nat n / of_nat (n + 1))" by simp
  then show ?thesis unfolding t w1_incr by simp
qed

lemma w1_strict:
  assumes "0 < n" and "v \<noteq> m"
  shows "S < snd (snd (w1_step v (n, m, S)))"
proof -
  have "0 < (v - m) ^ 2" using assms(2) by simp
  moreover have "0 < (of_nat n / of_nat (n + 1) :: real)" using assms(1) by simp
  ultimately have "0 < (v - m) ^ 2 * (of_nat n / of_nat (n + 1))" by (rule mult_pos_pos)
  then show ?thesis unfolding w1_incr by simp
qed

lemma w1_const_step: "w1_step c (n, c, S) = (n + 1, c, S)"
  by (simp add: w1_step_def)

lemma w1_first: "w1_step c (0, 0, 0) = (1, c, 0)"
  by (simp add: w1_step_def)

lemma w1_const_fold:
  "\<forall>v \<in> set vs. v = c \<Longrightarrow> fold w1_step vs (n, c, S) = (n + length vs, c, S)"
  by (induction vs arbitrary: n) (simp_all add: w1_const_step)

lemma w1_const:
  assumes "\<forall>v \<in> set vs. v = c" and "vs \<noteq> []"
  shows "fold w1_step vs (0, 0, 0) = (length vs, c, 0)"
proof -
  obtain v vs' where vs: "vs = v # vs'" using assms(2) by (cases vs) auto
  with assms(1) have "v = c" and r: "\<forall>v \<in> set vs'. v = c" by simp_all
  then show ?thesis using w1_const_fold [OF r, of 1 0] by (simp add: vs w1_first)
qed

lemma w1_nonneg: "0 \<le> snd (snd (fold w1_step vs (0, 0, 0)))"
proof (induction vs rule: rev_induct)
  case Nil
  then show ?case by simp
next
  case (snoc v vs)
  from snoc w1_mono [of "fold w1_step vs (0, 0, 0)" v] show ?case by simp
qed

lemma w1_pos:
  assumes "\<exists>a \<in> set vs. \<exists>b \<in> set vs. a \<noteq> b"
  shows "0 < snd (snd (fold w1_step vs (0, 0, 0)))"
  using assms
proof (induction vs rule: rev_induct)
  case Nil
  then show ?case by simp
next
  case (snoc v vs)
  show ?case
  proof (cases "\<exists>a \<in> set vs. \<exists>b \<in> set vs. a \<noteq> b")
    case True
    then have "0 < snd (snd (fold w1_step vs (0, 0, 0)))" by (rule snoc.IH)
    with w1_mono [of "fold w1_step vs (0, 0, 0)" v] show ?thesis by simp
  next
    case False
    with snoc.prems obtain c where c: "c \<in> set vs" and ne: "v \<noteq> c" by auto
    from False c have all: "\<forall>a \<in> set vs. a = c" by blast
    from c have "vs \<noteq> []" by auto
    from w1_const [OF all this] have st: "fold w1_step vs (0, 0, 0) = (length vs, c, 0)" .
    have "0 < length vs" using \<open>vs \<noteq> []\<close> by simp
    from w1_strict [OF this ne, of 0] show ?thesis by (simp add: st)
  qed
qed

lemma sum_list_const: "\<forall>x \<in> set xs. x = c \<Longrightarrow> sum_list xs = of_nat (length xs) * (c::real)"
  by (induction xs) (simp_all add: algebra_simps)

lemma variance_const:
  assumes "\<forall>x \<in> set xs. x = c"
  shows "variance xs = 0"
proof (cases "xs = []")
  case True
  then show ?thesis by (simp add: variance_def)
next
  case False
  then have "sum_list xs / of_nat (length xs) = c"
    using sum_list_const [OF assms] by simp
  moreover have "sum_list (map (\<lambda>x. (x - c) ^ 2) xs) = 0"
    using assms by (induction xs) simp_all
  ultimately show ?thesis by (simp add: variance_def)
qed

lemma variance_nonzero_differ:
  assumes "variance xs \<noteq> 0"
  shows "\<exists>a \<in> set xs. \<exists>b \<in> set xs. a \<noteq> b"
proof (rule ccontr)
  assume "\<not> (\<exists>a \<in> set xs. \<exists>b \<in> set xs. a \<noteq> b)"
  then have "\<forall>x \<in> set xs. x = hd xs" by (cases xs) auto
  from variance_const [OF this] assms show False by simp
qed

lemma sq_sum_zero:
  "sum_list (map (\<lambda>x. (x - m) ^ 2) xs) = 0 \<Longrightarrow> \<forall>x \<in> set xs. x = (m::real)"
proof (induction xs)
  case Nil
  then show ?case by simp
next
  case (Cons a xs)
  have nn: "0 \<le> sum_list (map (\<lambda>x. (x - m) ^ 2) xs)"
    by (rule sum_list_nonneg) auto
  have "(a - m) ^ 2 + sum_list (map (\<lambda>x. (x - m) ^ 2) xs) = 0"
    using Cons.prems by simp
  with nn have "(a - m) ^ 2 = 0" and "sum_list (map (\<lambda>x. (x - m) ^ 2) xs) = 0"
    by (simp_all add: add_nonneg_eq_0_iff)
  with Cons.IH show ?case by simp
qed

lemma variance_zero_const:
  assumes "variance xs = 0"
  shows "xs = [] \<or> (\<exists>c. \<forall>x \<in> set xs. x = c)"
proof (cases "length xs < 2")
  case True
  then have "xs = [] \<or> (\<exists>x. xs = [x])"
    by (cases xs) (auto simp: length_Suc_conv)
  then show ?thesis by auto
next
  case False
  define m where "m = sum_list xs / of_nat (length xs)"
  have "(of_nat (length xs) - 1 :: real) \<noteq> 0" using False by auto
  with assms have z: "sum_list (map (\<lambda>x. (x - m) ^ 2) xs) = 0"
    by (simp add: variance_def m_def)
  from sq_sum_zero [OF z] show ?thesis by blast
qed

lemma nobs_fold: "nobs (fold nancorr_step ps s) = nobs s + length ps"
  by (induction ps arbitrary: s) (simp_all add: nancorr_step_def Let_def)

lemma ssqdm_x_fold:
  "length xs = length ys \<Longrightarrow>
   ssqdm_x (fold nancorr_step (zip xs ys) welford_init) = snd (snd (fold w1_step xs (0, 0, 0)))"
proof -
  assume l: "length xs = length ys"
  have "snd (snd (xpart (fold nancorr_step (zip xs ys) welford_init))) =
        snd (snd (fold w1_step (map fst (zip xs ys)) (xpart welford_init)))"
    by (simp only: xpart_fold)
  then show ?thesis using l by (simp add: xpart_def welford_init_def)
qed

lemma ssqdm_y_fold:
  "length xs = length ys \<Longrightarrow>
   ssqdm_y (fold nancorr_step (zip xs ys) welford_init) = snd (snd (fold w1_step ys (0, 0, 0)))"
proof -
  assume l: "length xs = length ys"
  have "snd (snd (ypart (fold nancorr_step (zip xs ys) welford_init))) =
        snd (snd (fold w1_step (map snd (zip xs ys)) (ypart welford_init)))"
    by (simp only: ypart_fold)
  then show ?thesis using l by (simp add: ypart_def welford_init_def)
qed

lemma diag_fold:
  assumes "\<forall>p \<in> set ps. fst p = snd p"
    and "meanx s = meany s" and "ssqdm_y s = ssqdm_x s" and "covxy s = ssqdm_x s"
  shows "ssqdm_y (fold nancorr_step ps s) = ssqdm_x (fold nancorr_step ps s) \<and>
         covxy (fold nancorr_step ps s) = ssqdm_x (fold nancorr_step ps s)"
  using assms
proof (induction ps arbitrary: s)
  case Nil
  then show ?case by simp
next
  case (Cons p ps)
  have "fst p = snd p" using Cons.prems(1) by simp
  then have "meanx (nancorr_step p s) = meany (nancorr_step p s)"
    and "ssqdm_y (nancorr_step p s) = ssqdm_x (nancorr_step p s)"
    and "covxy (nancorr_step p s) = ssqdm_x (nancorr_step p s)"
    using Cons.prems(2,3,4) by (simp_all add: nancorr_step_def Let_def)
  with Cons.IH [of "nancorr_step p s"] Cons.prems(1) show ?case by simp
qed

lemma nancorr_pair_diag:
  assumes "\<exists>a \<in> set xs. \<exists>b \<in> set xs. a \<noteq> b"
  shows "nancorr_pair xs xs = Fin 1"
proof -
  define s where "s = fold nancorr_step (zip xs xs) welford_init"
  have ne: "xs \<noteq> []" using assms by auto
  have n: "\<not> nobs s < minp"
    using ne by (simp add: s_def nobs_fold welford_init_def minp_def)
  have "\<forall>p \<in> set (zip xs xs). fst p = snd p" by (auto simp: zip_same)
  from diag_fold [OF this, of welford_init]
  have y: "ssqdm_y s = ssqdm_x s" and c: "covxy s = ssqdm_x s"
    by (simp_all add: s_def welford_init_def)
  have pos: "0 < ssqdm_x s"
    unfolding s_def using w1_pos [OF assms] by (simp add: ssqdm_x_fold)
  have d: "sqrt (ssqdm_x s * ssqdm_y s) = ssqdm_x s"
    using pos by (simp add: y)
  show ?thesis
    unfolding nancorr_pair_def s_def [symmetric] Let_def d c
    using n pos by simp
qed

lemma nancorr_pair_degenerate_x:
  assumes "length xs = length ys" and "xs = [] \<or> (\<exists>c. \<forall>x \<in> set xs. x = c)"
  shows "nancorr_pair xs ys = NaN"
proof (cases "xs = []")
  case True
  then show ?thesis by (simp add: nancorr_pair_def welford_init_def minp_def)
next
  case False
  with assms(2) obtain c where "\<forall>x \<in> set xs. x = c" by blast
  from w1_const [OF this False] have "ssqdm_x (fold nancorr_step (zip xs ys) welford_init) = 0"
    by (simp add: ssqdm_x_fold [OF assms(1)])
  then show ?thesis by (simp add: nancorr_pair_def Let_def)
qed

lemma nancorr_pair_degenerate_y:
  assumes "length xs = length ys" and "ys = [] \<or> (\<exists>c. \<forall>y \<in> set ys. y = c)"
  shows "nancorr_pair xs ys = NaN"
proof (cases "ys = []")
  case True
  then show ?thesis by (simp add: nancorr_pair_def welford_init_def minp_def)
next
  case False
  with assms(2) obtain c where "\<forall>y \<in> set ys. y = c" by blast
  from w1_const [OF this False] have "ssqdm_y (fold nancorr_step (zip xs ys) welford_init) = 0"
    by (simp add: ssqdm_y_fold [OF assms(1)])
  then show ?thesis by (simp add: nancorr_pair_def Let_def)
qed

lemma nancorr_pair_defined:
  assumes "length xs = length ys"
    and "\<exists>a \<in> set xs. \<exists>b \<in> set xs. a \<noteq> b"
    and "\<exists>a \<in> set ys. \<exists>b \<in> set ys. a \<noteq> b"
  shows "nancorr_pair xs ys \<noteq> NaN"
proof -
  define s where "s = fold nancorr_step (zip xs ys) welford_init"
  have ne: "xs \<noteq> []" "ys \<noteq> []" using assms(2,3) by auto
  have n: "\<not> nobs s < minp"
    using ne by (simp add: s_def nobs_fold welford_init_def minp_def)
  have "0 < ssqdm_x s" "0 < ssqdm_y s"
    unfolding s_def using w1_pos [OF assms(2)] w1_pos [OF assms(3)]
    by (simp_all add: ssqdm_x_fold [OF assms(1)] ssqdm_y_fold [OF assms(1)])
  then have "sqrt (ssqdm_x s * ssqdm_y s) \<noteq> 0" by simp
  then show ?thesis
    unfolding nancorr_pair_def s_def [symmetric] Let_def using n by simp
qed

lemma length_visualisasi_korelasi: "length (visualisasi_korelasi df) = 3"
  by (simp add: visualisasi_korelasi_def nancorr_def rel_cols_def Let_def)

lemma length_row_visualisasi_korelasi:
  "i < 3 \<Longrightarrow> length (visualisasi_korelasi df ! i) = 3"
  by (simp add: visualisasi_korelasi_def nancorr_def rel_cols_def Let_def)
    (auto simp: less_Suc_eq numeral_3_eq_3)

lemma entry_visualisasi_korelasi:
  "i < 3 \<Longrightarrow> j < 3 \<Longrightarrow>
   visualisasi_korelasi df ! i ! j =
     (if j \<le> i then nancorr_pair (rel_cols df ! i) (rel_cols df ! j)
      else nancorr_pair (rel_cols df ! j) (rel_cols df ! i))"
proof -
  assume i: "i < 3" and j: "j < 3"
  have K: "length (rel_cols df) = 3" by (simp add: rel_cols_def)
  show ?thesis
    unfolding visualisasi_korelasi_def nancorr_def Let_def K
    using i j by simp
qed

lemma length_rel_cols: "i < 3 \<Longrightarrow> length (rel_cols df ! i) = length df"
  by (auto simp: rel_cols_def less_Suc_eq numeral_3_eq_3)

lemma rel_cols_nth:
  "rel_cols df ! 0 = map Durasi_Penggunaan_Harian df"
  "rel_cols df ! 1 = map Durasi_Tidur df"
  "rel_cols df ! 2 = map (\<lambda>r. of_int (Skor_Kesehatan_Mental r)) df"
  "rel_cols df ! Suc 0 = map Durasi_Tidur df"
  by (simp_all add: rel_cols_def)

lemma less_3_cases: "i < (3::nat) \<Longrightarrow> i = 0 \<or> i = 1 \<or> i = 2"
  by arith

lemma short_column:
  assumes "length xs < 2"
  shows "xs = [] \<or> (\<exists>c::real. \<forall>x \<in> set xs. x = c)"
proof -
  from assms have "xs = [] \<or> (\<exists>x. xs = [x])"
    by (cases xs) (auto simp: length_Suc_conv)
  then show ?thesis by auto
qed

lemma entry_degenerate:
  assumes c: "c < 3" and j: "j < 3"
    and deg: "rel_cols df ! c = [] \<or> (\<exists>v. \<forall>x \<in> set (rel_cols df ! c). x = v)"
  shows "visualisasi_korelasi df ! c ! j = NaN \<and> visualisasi_korelasi df ! j ! c = NaN"
proof -
  have l: "length (rel_cols df ! c) = length (rel_cols df ! j)"
    "length (rel_cols df ! j) = length (rel_cols df ! c)"
    using c j by (simp_all add: length_rel_cols)
  have x: "nancorr_pair (rel_cols df ! c) (rel_cols df ! j) = NaN"
    by (rule nancorr_pair_degenerate_x [OF l(1) deg])
  have y: "nancorr_pair (rel_cols df ! j) (rel_cols df ! c) = NaN"
    by (rule nancorr_pair_degenerate_y [OF l(2) deg])
  show ?thesis
    using x y by (auto simp: entry_visualisasi_korelasi [OF c j] entry_visualisasi_korelasi [OF j c])
qed

section \<open>The correlation matrix\<close>

text \<open>
  Claim C6. For every table with at least two rows in which each of the three numeric
  columns has a nonzero variance, the correlation matrix has three rows of three
  entries, is symmetric, and has 1.0 at each place of the diagonal; moreover no entry
  is NaN.
\<close>

theorem C6_corr_symmetric_unit_diagonal:
  assumes "2 \<le> length df"
    and "variance (map Durasi_Penggunaan_Harian df) \<noteq> 0"
    and "variance (map Durasi_Tidur df) \<noteq> 0"
    and "variance (map (\<lambda>r. of_int (Skor_Kesehatan_Mental r)) df) \<noteq> 0"
  shows "length (visualisasi_korelasi df) = 3 \<and>
         (\<forall>i<3. length (visualisasi_korelasi df ! i) = 3) \<and>
         (\<forall>i<3. \<forall>j<3. visualisasi_korelasi df ! i ! j = visualisasi_korelasi df ! j ! i) \<and>
         (\<forall>i<3. visualisasi_korelasi df ! i ! i = Fin 1) \<and>
         (\<forall>i<3. \<forall>j<3. visualisasi_korelasi df ! i ! j \<noteq> NaN)"
proof -
  have differ: "\<exists>a \<in> set (rel_cols df ! c). \<exists>b \<in> set (rel_cols df ! c). a \<noteq> b" if "c < 3" for c
  proof -
    from that have "variance (rel_cols df ! c) \<noteq> 0"
      using assms(2,3,4) less_3_cases [of c] by (auto simp: rel_cols_nth)
    then show ?thesis by (rule variance_nonzero_differ)
  qed
  have sym: "\<forall>i<3. \<forall>j<3. visualisasi_korelasi df ! i ! j = visualisasi_korelasi df ! j ! i"
    by (auto simp: entry_visualisasi_korelasi)
  have diag: "\<forall>i<3. visualisasi_korelasi df ! i ! i = Fin 1"
    by (simp add: entry_visualisasi_korelasi nancorr_pair_diag differ)
  have defined: "\<forall>i<3. \<forall>j<3. visualisasi_korelasi df ! i ! j \<noteq> NaN"
    by (simp add: entry_visualisasi_korelasi nancorr_pair_defined differ length_rel_cols)
  from length_visualisasi_korelasi [of df] length_row_visualisasi_korelasi [of _ df]
    sym diag defined
  show ?thesis by blast
qed

theorem C6_corr_symmetric_unit_diagonal_witness:
  "2 \<le> length small_df \<and>
   variance (map Durasi_Penggunaan_Harian small_df) = 13 \<and>
   variance (map Durasi_Tidur small_df) = 1 \<and>
   variance (map (\<lambda>r. of_int (Skor_Kesehatan_Mental r)) small_df) = 25 \<and>
   length (visualisasi_korelasi small_df) = 3 \<and>
   visualisasi_korelasi small_df ! 0 ! 0 = Fin 1 \<and>
   visualisasi_korelasi small_df ! 1 ! 1 = Fin 1 \<and>
   visualisasi_korelasi small_df ! 2 ! 2 = Fin 1 \<and>
   visualisasi_korelasi small_df ! 0 ! 2 = visualisasi_korelasi small_df ! 2 ! 0"
proof -
  have l: "2 \<le> length small_df" by (simp add: small_df_def)
  have u: "variance (map Durasi_Penggunaan_Harian small_df) = 13"
    by (simp add: variance_def small_df_def r1_def r2_def r3_def Let_def)
  have s: "variance (map Durasi_Tidur small_df) = 1"
    by (simp add: variance_def small_df_def r1_def r2_def r3_def Let_def)
  have m: "variance (map (\<lambda>r. of_int (Skor_Kesehatan_Mental r)) small_df) = 25"
    by (simp add: variance_def small_df_def r1_def r2_def r3_def Let_def)
  have u': "variance (map Durasi_Penggunaan_Harian small_df) \<noteq> 0" by (simp add: u)
  have s': "variance (map Durasi_Tidur small_df) \<noteq> 0" by (simp add: s)
  have m': "variance (map (\<lambda>r. of_int (Skor_Kesehatan_Mental r)) small_df) \<noteq> 0" by (simp add: m)
  from C6_corr_symmetric_unit_diagonal [OF l u' s' m'] l u s m show ?thesis by simp
qed

text \<open>
  Claim C7. For a table with fewer than two rows every entry of the correlation matrix
  is NaN. For a table in which one of the three numeric columns has zero variance,
  every entry in the row and in the column of that column is NaN. In both cases the
  matrix is returned, not an error. On the empty table each of the three aggregation
  stages returns its result: the correlation matrix is the all-NaN matrix, the grouped
  mean and the platform ranking are empty tables.
\<close>

theorem C7_corr_degenerate_nan:
  "(length df < 2 \<longrightarrow> (\<forall>i<3. \<forall>j<3. visualisasi_korelasi df ! i ! j = NaN)) \<and>
   (\<forall>c<3. variance (rel_cols df ! c) = 0 \<longrightarrow>
      (\<forall>j<3. visualisasi_korelasi df ! c ! j = NaN \<and> visualisasi_korelasi df ! j ! c = NaN)) \<and>
   visualisasi_korelasi [] = [[NaN, NaN, NaN], [NaN, NaN, NaN], [NaN, NaN, NaN]] \<and>
   visualisasi_demografi [] = [] \<and>
   visualisasi_platform [] = []"
proof -
  have short: "length df < 2 \<longrightarrow> (\<forall>i<3. \<forall>j<3. visualisasi_korelasi df ! i ! j = NaN)"
  proof (intro impI allI)
    fix i j :: nat
    assume "length df < 2" and i: "i < 3" and j: "j < 3"
    then have "length (rel_cols df ! i) < 2" by (simp add: length_rel_cols)
    from entry_degenerate [OF i j short_column [OF this]]
    show "visualisasi_korelasi df ! i ! j = NaN" by simp
  qed
  have flat: "\<forall>c<3. variance (rel_cols df ! c) = 0 \<longrightarrow>
      (\<forall>j<3. visualisasi_korelasi df ! c ! j = NaN \<and> visualisasi_korelasi df ! j ! c = NaN)"
  proof (intro impI allI)
    fix c j :: nat
    assume c: "c < 3" and "variance (rel_cols df ! c) = 0" and j: "j < 3"
    from entry_degenerate [OF c j variance_zero_const [OF this(2)]]
    show "visualisasi_korelasi df ! c ! j = NaN \<and> visualisasi_korelasi df ! j ! c = NaN" .
  qed
  have e1: "visualisasi_korelasi [] = [[NaN, NaN, NaN], [NaN, NaN, NaN], [NaN, NaN, NaN]]"
    by (simp add: visualisasi_korelasi_def nancorr_def rel_cols_def Let_def
        nancorr_pair_def welford_init_def minp_def upt_rec)
  have e2: "visualisasi_demografi [] = []"
    by (simp add: visualisasi_demografi_def groupby_agg_def group_keys_def)
  have e3: "visualisasi_platform [] = []"
    by (simp add: visualisasi_platform_def platform_rows_def groupby_agg_def group_keys_def
        sort_values_desc_def)
  from short flat e1 e2 e3 show ?thesis by blast
qed

theorem C7_corr_degenerate_nan_witness:
  "length [r1] < 2 \<and>
   visualisasi_korelasi [r1] ! 0 ! 1 = NaN \<and>
   visualisasi_korelasi [r1] ! 2 ! 2 = NaN \<and>
   length flat_df = 2 \<and>
   variance (rel_cols flat_df ! 0) = 0 \<and>
   variance (rel_cols flat_df ! 1) \<noteq> 0 \<and>
   visualisasi_korelasi flat_df ! 0 ! 0 = NaN \<and>
   visualisasi_korelasi flat_df ! 0 ! 1 = NaN \<and>
   visualisasi_korelasi flat_df ! 1 ! 0 = NaN"
proof -
  have l: "length [r1] < 2" by simp
  have n: "length flat_df = 2" by (simp add: flat_df_def)
  have v0: "variance (rel_cols flat_df ! 0) = 0"
    by (simp add: variance_def rel_cols_def flat_df_def r1_def r2_def Let_def)
  have v1: "variance (rel_cols flat_df ! 1) \<noteq> 0"
    by (simp add: variance_def rel_cols_def flat_df_def r1_def r2_def Let_def)
  have a: "\<forall>i<3. \<forall>j<3. visualisasi_korelasi [r1] ! i ! j = NaN"
    using C7_corr_degenerate_nan [of "[r1]"] l by blast
  have b: "\<forall>j<3. visualisasi_korelasi flat_df ! 0 ! j = NaN \<and> visualisasi_korelasi flat_df ! j ! 0 = NaN"
    using C7_corr_degenerate_nan [of flat_df] v0 by simp
  from a b l n v0 v1 show ?thesis by simp
qed

end
